theory Spec2Isabelle
  imports Complex_Main
begin

section \<open>Funding-rate chart: data model\<close>

text \<open>
  The view component \<open>FundingChart\<close> and the constants it reads. JavaScript numbers are
  idealised as reals (the spec restricts the rate projector to finite reals); a value that
  may be \<open>undefined\<close> is an \<open>option\<close>, with \<open>None\<close> for \<open>undefined\<close>.
\<close>

text \<open>
  The enum \<open>FundingRateResolution\<close> and the type \<open>FundingChartDatum\<close> are declared in
  \<open>@/constants/charts\<close>; their shape is taken from the data model of the spec.
  \<open>FundingDirection\<close> is the enum of \<open>constants/markets.ts\<close>, in its order; its third
  member \<open>None\<close> is named \<open>NoneDirection\<close> here.
\<close>

datatype FundingRateResolution = OneHour | EightHour | Annualized

datatype FundingDirection = ToShort | ToLong | NoneDirection

record FundingChartDatum =
  time :: int
  fundingRate :: real
  direction :: FundingDirection

datatype error = TypeError

subsection \<open>JavaScript operators the component uses\<close>

text \<open>Reading an array at an index: \<open>undefined\<close> outside the array.\<close>

definition js_index :: "'a list \<Rightarrow> int \<Rightarrow> 'a option" where
  "js_index xs i = (if 0 \<le> i \<and> i < int (length xs) then Some (xs ! nat i) else None)"

text \<open>\<open>a ?? b\<close>: the right operand when the left one is \<open>undefined\<close>.\<close>

definition nullish :: "'a option \<Rightarrow> 'a option \<Rightarrow> 'a option" where
  "nullish a b = (case a of None \<Rightarrow> b | Some x \<Rightarrow> Some x)"

text \<open>\<open>!x\<close> on an optional boolean: \<open>undefined\<close> is falsy.\<close>

definition js_not :: "bool option \<Rightarrow> bool" where
  "js_not x = (case x of None \<Rightarrow> True | Some b \<Rightarrow> \<not> b)"

text \<open>
  \<open>x < y\<close> with a left operand that may be \<open>undefined\<close>: \<open>undefined\<close> converts
  to NaN, and every comparison with NaN is false.
\<close>

definition js_less :: "real option \<Rightarrow> real \<Rightarrow> bool" where
  "js_less x y = (case x of None \<Rightarrow> False | Some v \<Rightarrow> v < y)"

text \<open>\<open>s || ''\<close> on an optional string: \<open>undefined\<close> and the empty string are falsy.\<close>

definition or_empty :: "string option \<Rightarrow> string" where
  "or_empty s = (case s of None \<Rightarrow> [] | Some t \<Rightarrow> (if t = [] then [] else t))"

section \<open>The rate projector\<close>

text \<open>
  Modelled from the spec: \<open>MustBigNumber\<close> (of \<open>@/lib/numbers\<close>) and the methods
  \<open>times\<close> and \<open>toNumber\<close> of the value it returns are not in the source. The spec gives
  the projector as \<open>EightHour \<mapsto> r \<times> 8\<close> and \<open>Annualized \<mapsto> r \<times> 24 \<times> 365\<close>: the number is
  wrapped, multiplied exactly and unwrapped.
\<close>

datatype BigNumber = BigNumber real

definition MustBigNumber :: "real \<Rightarrow> BigNumber" where
  "MustBigNumber amount = BigNumber amount"

fun times_BigNumber :: "BigNumber \<Rightarrow> real \<Rightarrow> BigNumber" where
  "times_BigNumber (BigNumber x) k = BigNumber (x * k)"

fun toNumber :: "BigNumber \<Rightarrow> real" where
  "toNumber (BigNumber x) = x"

text \<open>
  \<open>getAllFundingRates\<close>: the argument is optional and defaults to 0; the result is an
  object with the three resolutions as keys, here an association list in the order of the
  object literal.
\<close>

definition getAllFundingRates :: "real option \<Rightarrow> (FundingRateResolution \<times> real) list" where
  "getAllFundingRates arg =
     (let oneHourRate = (case arg of None \<Rightarrow> 0 | Some r \<Rightarrow> r) in
      [(OneHour, oneHourRate),
       (EightHour, toNumber (times_BigNumber (MustBigNumber oneHourRate) 8)),
       (Annualized, toNumber (times_BigNumber (MustBigNumber oneHourRate) (24 * 365)))])"

section \<open>The component\<close>

subsection \<open>Local state\<close>

record 'd NearestDatum =
  datum :: 'd
  index :: nat

record 'd TooltipData =
  nearestDatum :: "'d NearestDatum option"

record 'd TooltipContextType =
  tooltipOpen :: bool
  tooltipData :: "'d TooltipData option"

record State =
  fundingRateView :: FundingRateResolution
  tooltipContext :: "FundingChartDatum TooltipContextType option"

text \<open>The two \<open>useState\<close> calls: the view starts at \<open>OneHour\<close>, the context undefined.\<close>

definition mount :: State where
  "mount = \<lparr>fundingRateView = OneHour, tooltipContext = None\<rparr>"

definition setFundingRateView :: "FundingRateResolution \<Rightarrow> State \<Rightarrow> State" where
  "setFundingRateView v s = s\<lparr>fundingRateView := v\<rparr>"

definition setTooltipContext :: "FundingChartDatum TooltipContextType \<Rightarrow> State \<Rightarrow> State" where
  "setTooltipContext c s = s\<lparr>tooltipContext := Some c\<rparr>"

definition onTooltipContext :: "FundingChartDatum TooltipContextType \<Rightarrow> State \<Rightarrow> State" where
  "onTooltipContext c s = setTooltipContext c s"

text \<open>The states the two handlers reach from the mounted component.\<close>

inductive reachable :: "State \<Rightarrow> bool" where
  reachable_mount: "reachable mount"
| reachable_view: "reachable s \<Longrightarrow> reachable (setFundingRateView v s)"
| reachable_tooltip: "reachable s \<Longrightarrow> reachable (onTooltipContext c s)"

subsection \<open>Computations\<close>

text \<open>\<open>data?.[data.length - 1]\<close>\<close>

definition latestDatum :: "FundingChartDatum list option \<Rightarrow> FundingChartDatum option" where
  "latestDatum data =
     (case data of None \<Rightarrow> None | Some xs \<Rightarrow> js_index xs (int (length xs) - 1))"

text \<open>\<open>latestDatum && getAllFundingRates(latestDatum.fundingRate)[fundingRateView]\<close>\<close>

definition latestFundingRate ::
  "FundingChartDatum list option \<Rightarrow> FundingRateResolution \<Rightarrow> real option" where
  "latestFundingRate data view =
     (case latestDatum data of
        None \<Rightarrow> None
      | Some d \<Rightarrow> map_of (getAllFundingRates (Some (fundingRate d))) view)"

subsection \<open>Series and axis labels\<close>

datatype Curve = curveMonotoneX | curveStepAfter

definition getCurve :: "real \<Rightarrow> Curve" where
  "getCurve zoom = (if zoom > 12 then curveMonotoneX else curveStepAfter)"

datatype OutputType = DateTime | SmallPercent

record XAxisLabelOutput =
  x_type :: OutputType
  x_value :: int

record YAxisLabelOutput =
  y_type :: OutputType
  y_value :: "real option"
  accentColor :: "string option"

text \<open>The object literal of \<open>renderYAxisLabel\<close> that maps a direction to its colour.\<close>

definition accentColors :: "(FundingDirection \<times> string) list" where
  "accentColors =
     [(ToLong, ''var(--color-negative)''),
      (ToShort, ''var(--color-positive)''),
      (NoneDirection, ''var(--color-layer-6)'')]"

text \<open>
  Both label renderers read \<open>tooltipData!.nearestDatum?.datum ?? latestDatum\<close> and then
  a property of the result: reading a property of \<open>undefined\<close> throws a TypeError.
\<close>

definition tooltipDatum ::
  "FundingChartDatum option \<Rightarrow> FundingChartDatum TooltipData option \<Rightarrow>
   error + FundingChartDatum option" where
  "tooltipDatum latest td =
     (case td of
        None \<Rightarrow> Inl TypeError
      | Some t \<Rightarrow> Inr (nullish (map_option datum (nearestDatum t)) latest))"

definition renderXAxisLabel ::
  "FundingChartDatum option \<Rightarrow> FundingChartDatum TooltipData option \<Rightarrow>
   error + XAxisLabelOutput" where
  "renderXAxisLabel latest td =
     (case tooltipDatum latest td of
        Inl e \<Rightarrow> Inl e
      | Inr None \<Rightarrow> Inl TypeError
      | Inr (Some d) \<Rightarrow> Inr \<lparr>x_type = DateTime, x_value = time d\<rparr>)"

definition renderYAxisLabel ::
  "FundingChartDatum option \<Rightarrow> FundingRateResolution \<Rightarrow>
   FundingChartDatum TooltipData option \<Rightarrow> error + YAxisLabelOutput" where
  "renderYAxisLabel latest view td =
     (case tooltipDatum latest td of
        Inl e \<Rightarrow> Inl e
      | Inr None \<Rightarrow> Inl TypeError
      | Inr (Some d) \<Rightarrow>
          Inr \<lparr>y_type = SmallPercent,
               y_value = map_of (getAllFundingRates (Some (fundingRate d))) view,
               accentColor = map_of accentColors (direction d)\<rparr>)"

subsection \<open>Resolution toggle and current-rate overlay\<close>

text \<open>
  The localization keys the component passes to \<open>stringGetter\<close>; the getter itself is a
  parameter, \<open>None\<close> where it has no string for the key.
\<close>

datatype StringKey =
  RATE_1H | RATE_8H | ANNUALIZED | CURRENT_RATE_1H | CURRENT_RATE_8H | CURRENT_ANNUALIZED_RATE

record ToggleItem =
  item_value :: FundingRateResolution
  item_label :: string

text \<open>\<open>Object.keys(FundingRateResolution)\<close>, in the order of the spec's data model.\<close>

definition resolution_keys :: "FundingRateResolution list" where
  "resolution_keys = [OneHour, EightHour, Annualized]"

definition toggle_items :: "(StringKey \<Rightarrow> string option) \<Rightarrow> ToggleItem list" where
  "toggle_items stringGetter =
     map (\<lambda>rate.
           \<lparr>item_value = rate,
            item_label =
              or_empty
                (case map_of
                        [(OneHour, stringGetter RATE_1H),
                         (EightHour, stringGetter RATE_8H),
                         (Annualized, stringGetter ANNUALIZED)] rate of
                   None \<Rightarrow> None
                 | Some l \<Rightarrow> l)\<rparr>)
         resolution_keys"

text \<open>The items the toggle group shows as selected: those whose value is the group's value.\<close>

definition selected_items :: "(StringKey \<Rightarrow> string option) \<Rightarrow> State \<Rightarrow> ToggleItem list" where
  "selected_items stringGetter s =
     filter (\<lambda>i. item_value i = fundingRateView s) (toggle_items stringGetter)"

text \<open>\<open>Styled.Output\<close>: the colour follows the \<open>isNegative\<close> prop.\<close>

definition output_color :: "bool \<Rightarrow> string" where
  "output_color isNegative =
     (if isNegative then ''var(--color-negative)'' else ''var(--color-positive)'')"

text \<open>
  \<open>Styled.CurrentFundingRate\<close>: the style rule \<open>opacity: 0\<close> is added when
  \<open>isShowing\<close> is false.
\<close>

definition overlay_css :: "bool \<Rightarrow> string option" where
  "overlay_css showing = (if \<not> showing then Some ''opacity: 0;'' else None)"

record CurrentFundingRate =
  isShowing :: bool
  heading :: "string option"
  output_value :: "real option"
  isNegative :: bool

definition currentFundingRate ::
  "(StringKey \<Rightarrow> string option) \<Rightarrow> FundingChartDatum list option \<Rightarrow> State \<Rightarrow>
   CurrentFundingRate" where
  "currentFundingRate stringGetter data s =
     \<lparr>isShowing = js_not (map_option tooltipOpen (tooltipContext s)),
      heading =
        (case map_of
                [(OneHour, stringGetter CURRENT_RATE_1H),
                 (EightHour, stringGetter CURRENT_RATE_8H),
                 (Annualized, stringGetter CURRENT_ANNUALIZED_RATE)] (fundingRateView s) of
           None \<Rightarrow> None
         | Some l \<Rightarrow> l),
      output_value = latestFundingRate data (fundingRateView s),
      isNegative = js_less (latestFundingRate data (fundingRateView s)) 0\<rparr>"

text \<open>
  The flag the overlay is compared with: \<open>tooltipOpen\<close> of the last context the chart
  reported, closed while none was reported.
\<close>

definition tooltip_is_open :: "State \<Rightarrow> bool" where
  "tooltip_is_open s = (case tooltipContext s of None \<Rightarrow> False | Some c \<Rightarrow> tooltipOpen c)"

section \<open>IEEE-754 binary64 products\<close>

text \<open>
  The arithmetic the spec's invariant names, for comparison with what the code computes: a
  finite binary64 value is \<open>m * 2 ^ e\<close> with \<open>\<bar>m\<bar> < 2 ^ 53\<close> and \<open>- 1074 \<le> e\<close>, a
  number written in decimal denotes the binary64 value nearest to it (ties to the even
  significand), and the product of two numbers is the exact product of their values,
  rounded the same way. \<open>None\<close> is an overflow to an infinity.
\<close>

text \<open>The number of binary digits of a positive integer.\<close>

function bit_length :: "int \<Rightarrow> int" where
  "bit_length n = (if n \<le> 0 then 0 else 1 + bit_length (n div 2))"
  by pat_completeness auto
termination
  by (relation "measure nat") auto

declare bit_length.simps [simp del]

definition pow2 :: "int \<Rightarrow> real" where
  "pow2 e = (if 0 \<le> e then 2 ^ nat e else 1 / 2 ^ nat (- e))"

text \<open>For \<open>0 < x\<close>, the \<open>k\<close> with \<open>2 ^ k \<le> x < 2 ^ (k + 1)\<close>.\<close>

definition floor_log2 :: "real \<Rightarrow> int" where
  "floor_log2 x =
     (if 1 \<le> x then bit_length \<lfloor>x\<rfloor> - 1 else - bit_length (\<lceil>1 / x\<rceil> - 1))"

definition round_half_even :: "real \<Rightarrow> int" where
  "round_half_even x =
     (let f = \<lfloor>x\<rfloor>; d = x - of_int f in
      if d < 1 / 2 then f else if 1 / 2 < d then f + 1 else if even f then f else f + 1)"

text \<open>
  Rounding to binary64: the unit of the last place is \<open>2 ^ e\<close> with 53 significant bits in
  the normal range and \<open>2 ^ - 1074\<close> below it.
\<close>

definition round_binary64 :: "real \<Rightarrow> real option" where
  "round_binary64 x =
     (if x = 0 then Some 0
      else
        (let e = max (floor_log2 \<bar>x\<bar> - 52) (- 1074);
             y = of_int (round_half_even (x / pow2 e)) * pow2 e
         in if \<bar>y\<bar> < 2 ^ 1024 then Some y else None))"


section \<open>Properties\<close>

subsection \<open>Helper facts\<close>

lemma latestDatum_snoc: "latestDatum (Some (ds @ [d])) = Some d"
  by (simp add: latestDatum_def js_index_def)

lemma latestDatum_empty: "latestDatum (Some []) = None"
  by (simp add: latestDatum_def js_index_def)

lemma getAllFundingRates_list:
  "getAllFundingRates (Some r) = [(OneHour, r), (EightHour, r * 8), (Annualized, r * 8760)]"
  by (simp add: getAllFundingRates_def MustBigNumber_def)

lemma latestFundingRate_empty: "latestFundingRate (Some []) view = None"
  by (simp add: latestFundingRate_def latestDatum_empty)

lemma latestFundingRate_snoc:
  "latestFundingRate (Some (ds @ [d])) view =
     map_of [(OneHour, fundingRate d), (EightHour, fundingRate d * 8),
             (Annualized, fundingRate d * 8760)] view"
  by (simp add: latestFundingRate_def latestDatum_snoc getAllFundingRates_list)

lemma toggle_items_values: "map item_value (toggle_items stringGetter) = resolution_keys"
  by (simp add: toggle_items_def comp_def)

text \<open>
  Binary64 rounding at a representable value, at a value between two neighbours and at
  the overflow threshold.
\<close>

lemma round_binary64_examples:
  "round_binary64 8760 = Some 8760"
  "round_binary64 (1 / 3) = Some (6004799503160661 / 2 ^ 54)"
  "round_binary64 (- (1 / 3)) = Some (- (6004799503160661 / 2 ^ 54))"
  "round_binary64 (2 ^ 1024) = None"
  by (simp_all add: round_binary64_def floor_log2_def bit_length.simps round_half_even_def
      pow2_def Let_def)

subsection \<open>Rate projector\<close>

text \<open>
  C1: for every hourly rate \<open>r\<close>, \<open>getAllFundingRates(r)\<close> is the object that maps
  OneHour to \<open>r\<close>, EightHour to \<open>r * 8\<close> and Annualized to \<open>r * 24 * 365\<close>; the function
  is total and returns a plain value.
\<close>

theorem getAllFundingRates_projection:
  "getAllFundingRates (Some r) = [(OneHour, r), (EightHour, r * 8), (Annualized, r * 24 * 365)]
   \<and> map_of (getAllFundingRates (Some r)) OneHour = Some r
   \<and> map_of (getAllFundingRates (Some r)) EightHour = Some (r * 8)
   \<and> map_of (getAllFundingRates (Some r)) Annualized = Some (r * 24 * 365)"
  by (simp add: getAllFundingRates_list)

text \<open>
  C3: calling \<open>getAllFundingRates\<close> with no argument gives the result of calling it with
  0, and that result is the all-zero object.
\<close>

theorem getAllFundingRates_default:
  "getAllFundingRates None = getAllFundingRates (Some 0)
   \<and> getAllFundingRates None = [(OneHour, 0), (EightHour, 0), (Annualized, 0)]"
  by (simp add: getAllFundingRates_def MustBigNumber_def)

text \<open>
  C4: for a datum with hourly rate \<open>r\<close>, the EightHour entry of the projection is 8 times
  its OneHour entry, and so the current rate shown for the latest datum is multiplied by 8
  when the view is switched from OneHour to EightHour over the same data.
\<close>

theorem eight_hour_is_8_times_one_hour:
  "map_of (getAllFundingRates (Some r)) OneHour = Some r
   \<and> map_of (getAllFundingRates (Some r)) EightHour = Some (8 * r)
   \<and> latestFundingRate (Some (ds @ [d])) (fundingRateView (setFundingRateView OneHour s))
       = Some (fundingRate d)
   \<and> latestFundingRate (Some (ds @ [d])) (fundingRateView (setFundingRateView EightHour s))
       = Some (8 * fundingRate d)"
  by (simp add: getAllFundingRates_list latestFundingRate_snoc setFundingRateView_def)



subsection \<open>Direction colours\<close>

text \<open>
  C5: the colour lookup of \<open>renderYAxisLabel\<close> is defined on every funding direction,
  the enum has the three members ToShort, ToLong and None only, and the three colour
  tokens are pairwise distinct.
\<close>

theorem accentColors_total_distinct:
  "(\<exists>c. map_of accentColors d = Some c)
   \<and> (UNIV :: FundingDirection set) = {ToShort, ToLong, NoneDirection}
   \<and> distinct (map (map_of accentColors) [ToShort, ToLong, NoneDirection])"
proof -
  have total: "\<exists>c. map_of accentColors d = Some c"
    by (cases d) (simp_all add: accentColors_def)
  have univ: "(UNIV :: FundingDirection set) = {ToShort, ToLong, NoneDirection}"
  proof
    show "(UNIV :: FundingDirection set) \<subseteq> {ToShort, ToLong, NoneDirection}"
    proof
      fix x :: FundingDirection
      show "x \<in> {ToShort, ToLong, NoneDirection}" by (cases x) simp_all
    qed
  qed simp
  have dist: "distinct (map (map_of accentColors) [ToShort, ToLong, NoneDirection])"
    by (simp add: accentColors_def)
  from total univ dist show ?thesis by blast
qed

subsection \<open>Empty data\<close>



text \<open>
  The one case the amended statement leaves out: on empty data, with tooltip data that has
  no nearest datum, the renderers read a property of the undefined latest datum.
\<close>

lemma axis_labels_without_any_datum:
  "renderXAxisLabel (latestDatum (Some [])) (Some \<lparr>nearestDatum = None\<rparr>) = Inl TypeError
   \<and> renderYAxisLabel (latestDatum (Some [])) view (Some \<lparr>nearestDatum = None\<rparr>)
       = Inl TypeError"
  by (simp add: renderXAxisLabel_def renderYAxisLabel_def tooltipDatum_def nullish_def
      latestDatum_empty)

subsection \<open>Overlay and tooltip\<close>

text \<open>
  C7: in every state the handlers reach, the overlay's \<open>isShowing\<close> is the negation of
  the tooltip-open flag and the overlay is styled invisible exactly while the tooltip is
  open; the tooltip callback leaves the selected view alone and changes nothing of the
  overlay but \<open>isShowing\<close>.
\<close>

theorem overlay_hidden_iff_tooltip_open:
  assumes "reachable s"
  shows "isShowing (currentFundingRate stringGetter data s) = (\<not> tooltip_is_open s)
   \<and> (overlay_css (isShowing (currentFundingRate stringGetter data s)) = Some ''opacity: 0;'')
       = tooltip_is_open s
   \<and> fundingRateView (onTooltipContext c s) = fundingRateView s
   \<and> currentFundingRate stringGetter data (onTooltipContext c s)
       = (currentFundingRate stringGetter data s)\<lparr>isShowing := \<not> tooltipOpen c\<rparr>"
proof -
  have showing: "isShowing (currentFundingRate stringGetter data s) = (\<not> tooltip_is_open s)"
    by (cases "tooltipContext s") (simp_all add: currentFundingRate_def js_not_def tooltip_is_open_def)
  have css: "(overlay_css (isShowing (currentFundingRate stringGetter data s)) = Some ''opacity: 0;'')
      = tooltip_is_open s"
    unfolding showing by (simp add: overlay_css_def)
  have view: "fundingRateView (onTooltipContext c s) = fundingRateView s"
    by (simp add: onTooltipContext_def setTooltipContext_def)
  have only: "currentFundingRate stringGetter data (onTooltipContext c s)
      = (currentFundingRate stringGetter data s)\<lparr>isShowing := \<not> tooltipOpen c\<rparr>"
    by (simp add: currentFundingRate_def onTooltipContext_def setTooltipContext_def js_not_def)
  from showing css view only show ?thesis by blast
qed

theorem overlay_hidden_iff_tooltip_open_witness:
  "reachable (onTooltipContext \<lparr>tooltipOpen = True, tooltipData = None\<rparr> mount)
   \<and> \<not> isShowing (currentFundingRate (\<lambda>k. None) (Some [])
         (onTooltipContext \<lparr>tooltipOpen = True, tooltipData = None\<rparr> mount))
   \<and> tooltip_is_open (onTooltipContext \<lparr>tooltipOpen = True, tooltipData = None\<rparr> mount)"
proof -
  have r: "reachable (onTooltipContext \<lparr>tooltipOpen = True, tooltipData = None\<rparr> mount)"
    by (intro reachable_tooltip reachable_mount)
  have t: "tooltip_is_open (onTooltipContext \<lparr>tooltipOpen = True, tooltipData = None\<rparr> mount)"
    by (simp add: tooltip_is_open_def onTooltipContext_def setTooltipContext_def)
  from overlay_hidden_iff_tooltip_open [OF r, of "\<lambda>k. None" "Some []"
      "\<lparr>tooltipOpen = False, tooltipData = None\<rparr>"] r t
  show ?thesis by simp
qed

subsection \<open>Curve selection\<close>

text \<open>
  C8: \<open>getCurve\<close> returns the monotone-cubic curve exactly when the zoom is greater than
  12, and the step-after curve exactly when it is not.
\<close>

theorem getCurve_threshold:
  "(getCurve zoom = curveMonotoneX) = (12 < zoom)
   \<and> (getCurve zoom = curveStepAfter) = (zoom \<le> 12)"
  by (auto simp add: getCurve_def)

subsection \<open>Resolution toggle\<close>

text \<open>
  C9: the toggle offers the three resolutions OneHour, EightHour and Annualized, each
  once; exactly one item is selected, the one of the current view; the view of the mounted
  component is OneHour, a constant that depends on no earlier state; and choosing a
  resolution makes it the view.
\<close>

theorem toggle_three_way_initial_OneHour:
  "fundingRateView mount = OneHour
   \<and> map item_value (toggle_items stringGetter) = [OneHour, EightHour, Annualized]
   \<and> set (map item_value (toggle_items stringGetter)) = UNIV
   \<and> map item_value (selected_items stringGetter s) = [fundingRateView s]
   \<and> fundingRateView (setFundingRateView v s) = v"
proof -
  have init: "fundingRateView mount = OneHour"
    by (simp add: mount_def)
  have vals: "map item_value (toggle_items stringGetter) = [OneHour, EightHour, Annualized]"
    by (simp add: toggle_items_values resolution_keys_def)
  have "x \<in> {OneHour, EightHour, Annualized}" for x :: FundingRateResolution
    by (cases x) simp_all
  then have all: "set (map item_value (toggle_items stringGetter)) = UNIV"
    unfolding vals by auto
  have sel: "map item_value (selected_items stringGetter s) = [fundingRateView s]"
    by (cases "fundingRateView s")
       (simp_all add: selected_items_def toggle_items_def resolution_keys_def)
  have set_view: "fundingRateView (setFundingRateView v s) = v"
    by (simp add: setFundingRateView_def)
  from init vals all sel set_view show ?thesis by blast
qed

subsection \<open>Sign of the current rate\<close>

text \<open>
  C10: with empty data the current rate is undefined, \<open>isNegative\<close> is false and the
  output takes the positive colour; with data whose latest datum is \<open>d\<close>, the projection
  of \<open>d\<close>'s rate has an entry for the selected view and \<open>isNegative\<close> is true exactly
  when that entry is less than 0.
\<close>

theorem isNegative_current_rate:
  "output_value (currentFundingRate stringGetter (Some []) s) = None
   \<and> \<not> isNegative (currentFundingRate stringGetter (Some []) s)
   \<and> output_color (isNegative (currentFundingRate stringGetter (Some []) s))
       = ''var(--color-positive)''
   \<and> (\<exists>x. map_of (getAllFundingRates (Some (fundingRate d))) (fundingRateView s) = Some x
          \<and> output_value (currentFundingRate stringGetter (Some (ds @ [d])) s) = Some x
          \<and> isNegative (currentFundingRate stringGetter (Some (ds @ [d])) s) = (x < 0))"
proof -
  have empty: "output_value (currentFundingRate stringGetter (Some []) s) = None"
    by (simp add: currentFundingRate_def latestFundingRate_empty)
  have neg: "\<not> isNegative (currentFundingRate stringGetter (Some []) s)"
    by (simp add: currentFundingRate_def latestFundingRate_empty js_less_def)
  have col: "output_color (isNegative (currentFundingRate stringGetter (Some []) s))
      = ''var(--color-positive)''"
    using neg by (simp add: output_color_def)
  have full: "\<exists>x. map_of (getAllFundingRates (Some (fundingRate d))) (fundingRateView s) = Some x
      \<and> output_value (currentFundingRate stringGetter (Some (ds @ [d])) s) = Some x
      \<and> isNegative (currentFundingRate stringGetter (Some (ds @ [d])) s) = (x < 0)"
    by (cases "fundingRateView s")
       (simp_all add: currentFundingRate_def latestFundingRate_snoc getAllFundingRates_list
          js_less_def)
  from empty neg col full show ?thesis by blast
qed

end
